theory Spec2Isabelle
  imports Main "HOL-Library.Sublist" "HOL-Library.Word"
begin

section \<open>Python values used by \<open>virtualizarr/manifests/array.py\<close>\<close>

text \<open>
  Exceptions are values: the constructor is the exception class, the string its message.
  A function that may raise returns \<open>error + 'a\<close>, with \<open>Inl\<close> the raised exception.
\<close>

datatype error =
    NotImplementedError string
  | ValueError string
  | IndexError string
  | AttributeError string
  | OverflowError string
  | TypeError string

text \<open>The exception class of an error value, as \<open>type(e)\<close> gives it.\<close>

datatype exc_class =
    NotImplementedError_class
  | ValueError_class
  | IndexError_class
  | AttributeError_class
  | OverflowError_class
  | TypeError_class

fun class_of :: "error \<Rightarrow> exc_class" where
  "class_of (NotImplementedError m) = NotImplementedError_class"
| "class_of (ValueError m) = ValueError_class"
| "class_of (IndexError m) = IndexError_class"
| "class_of (AttributeError m) = AttributeError_class"
| "class_of (OverflowError m) = OverflowError_class"
| "class_of (TypeError m) = TypeError_class"

fun message :: "error \<Rightarrow> string" where
  "message (NotImplementedError m) = m"
| "message (ValueError m) = m"
| "message (IndexError m) = m"
| "message (AttributeError m) = m"
| "message (OverflowError m) = m"
| "message (TypeError m) = m"

text \<open>
  The result of a protocol hook: the reserved value \<open>NotImplemented\<close> (no exception is
  raised), or whatever the hook returned otherwise.
\<close>

datatype 'r hook_result = NotImplemented | Returned 'r

text \<open>
  Python's index rule for a sequence of length \<open>n\<close>: \<open>0 \<le> i < n\<close> counts from the front,
  \<open>-n \<le> i < 0\<close> from the end, anything else is out of range.
\<close>

definition py_index :: "nat \<Rightarrow> int \<Rightarrow> nat option" where
  "py_index n i =
     (if 0 \<le> i \<and> i < int n then Some (nat i)
      else if - int n \<le> i \<and> i < 0 then Some (nat (int n + i))
      else None)"

text \<open>
  CPython converts an index to the C type \<open>Py_ssize_t\<close>, 64 bits wide, before it looks at
  the sequence; an integer outside that type is refused.
\<close>

definition fits_ssize_t :: "int \<Rightarrow> bool" where
  "fits_ssize_t i = (- (2 ^ 63) \<le> i \<and> i < 2 ^ 63)"

text \<open>\<open>t[i]\<close> on a tuple or list.\<close>

definition py_getitem :: "'a list \<Rightarrow> int \<Rightarrow> error + 'a" where
  "py_getitem t i =
     (if \<not> fits_ssize_t i
      then Inl (IndexError ''cannot fit 'int' into an index-sized integer'')
      else case py_index (length t) i of
        None \<Rightarrow> Inl (IndexError ''tuple index out of range'')
      | Some k \<Rightarrow> Inr (t ! k))"

text \<open>\<open>l[i] = v\<close> on a list; the updated list is returned.\<close>

definition py_setitem :: "'a list \<Rightarrow> int \<Rightarrow> 'a \<Rightarrow> error + 'a list" where
  "py_setitem l i v =
     (if \<not> fits_ssize_t i
      then Inl (IndexError ''cannot fit 'int' into an index-sized integer'')
      else case py_index (length l) i of
        None \<Rightarrow> Inl (IndexError ''list assignment index out of range'')
      | Some k \<Rightarrow> Inr (l[k := v]))"

text \<open>
  \<open>l.pop(i)\<close> on a list; the list after the pop is returned. The index is converted
  first: an index outside \<open>Py_ssize_t\<close> raises OverflowError, also on an empty list.
\<close>

definition py_pop :: "'a list \<Rightarrow> int \<Rightarrow> error + 'a list" where
  "py_pop l i =
     (if \<not> fits_ssize_t i
      then Inl (OverflowError ''Python int too large to convert to C ssize_t'')
      else if l = [] then Inl (IndexError ''pop from empty list'')
      else case py_index (length l) i of
        None \<Rightarrow> Inl (IndexError ''pop index out of range'')
      | Some k \<Rightarrow> Inr (take k l @ drop (Suc k) l))"

text \<open>
  A list comprehension whose element expression may raise: the elements are evaluated in
  order and the first exception ends the comprehension.
\<close>

fun comprehension :: "('a \<Rightarrow> error + 'b) \<Rightarrow> 'a list \<Rightarrow> error + 'b list" where
  "comprehension f [] = Inr []"
| "comprehension f (x # xs) =
     (case f x of
        Inl e \<Rightarrow> Inl e
      | Inr y \<Rightarrow> (case comprehension f xs of Inl e \<Rightarrow> Inl e | Inr ys \<Rightarrow> Inr (y # ys)))"

subsection \<open>Text of integers, tuples and lists\<close>

fun str_nat :: "nat \<Rightarrow> string" where
  "str_nat n =
     (if n < 10 then [''0123456789'' ! n]
      else str_nat (n div 10) @ [''0123456789'' ! (n mod 10)])"

definition str_int :: "int \<Rightarrow> string" where
  "str_int i = (if i < 0 then ''-'' @ str_nat (nat (- i)) else str_nat (nat i))"

fun join :: "string \<Rightarrow> string list \<Rightarrow> string" where
  "join sep [] = []"
| "join sep [s] = s"
| "join sep (s # t # ss) = s @ sep @ join sep (t # ss)"

text \<open>\<open>repr\<close> of a tuple of integers: \<open>()\<close>, \<open>(3,)\<close>, \<open>(3, 4)\<close>.\<close>

definition repr_tuple :: "int list \<Rightarrow> string" where
  "repr_tuple t =
     (case t of
        [] \<Rightarrow> ''()''
      | [x] \<Rightarrow> ''('' @ str_int x @ '',)''
      | _ \<Rightarrow> ''('' @ join '', '' (map str_int t) @ '')'')"

definition repr_list_of_tuples :: "int list list \<Rightarrow> string" where
  "repr_list_of_tuples ts = ''['' @ join '', '' (map repr_tuple ts) @ '']''"

section \<open>The data model\<close>

text \<open>
  Modelled from the spec: the dtype descriptor of numpy. Two descriptors are equal when
  they name the same dtype, and \<open>str\<close> of a descriptor is that name (\<open>float64\<close>).
\<close>

datatype np_dtype = Dtype (dtype_name: string)

definition str_dtype :: "np_dtype \<Rightarrow> string" where
  "str_dtype d = dtype_name d"

text \<open>
  Modelled from the spec: the class \<open>Codec\<close> of \<open>virtualizarr/zarr.py\<close>, which is not
  among the sources: an opaque, equality-comparable encoding descriptor, covering the
  compression algorithm, its parameters and the serialization format. It is identified
  here with its text, which is also what \<open>str\<close> gives.
\<close>

datatype Codec = Codec (codec_text: string)

definition str_codec :: "Codec \<Rightarrow> string" where
  "str_codec c = codec_text c"

text \<open>
  Modelled from the spec: the class \<open>ZArray\<close> of \<open>virtualizarr/zarr.py\<close>, which is not
  among the sources (the Array Metadata Descriptor): shape, chunk shape, dtype and codec.
\<close>

record ZArray =
  zarray_shape :: "int list"
  zarray_chunks :: "int list"
  zarray_dtype :: np_dtype
  zarray_codec :: Codec

text \<open>
  Modelled from the spec: the Byte-Range Reference and the Chunk Manifest of
  \<open>virtualizarr/manifests/manifest.py\<close>, which is not among the sources. The entries map a
  grid coordinate to a reference; they are kept as an association list.
\<close>

record ByteRange =
  location :: string
  offset :: nat
  length_bytes :: nat

record ChunkManifest =
  grid_shape :: "nat list"
  entries :: "(nat list \<times> ByteRange) list"

text \<open>
  The class \<open>ManifestArray\<close>: its two private attributes. \<open>_zarray\<close> is annotated
  \<open>ZArray\<close>, but \<open>concatenate\<close> stores what \<open>_replace_shape\<close> returns, which is \<open>None\<close>;
  so the attribute is optional here.
\<close>

record ManifestArray =
  priv_manifest :: ChunkManifest
  priv_zarray :: "ZArray option"

text \<open>\<open>ManifestArray.__init__(self, zarray, chunkmanifest)\<close>.\<close>

definition ManifestArray_init :: "ZArray option \<Rightarrow> ChunkManifest \<Rightarrow> ManifestArray" where
  "ManifestArray_init zarray chunkmanifest =
     \<lparr>priv_manifest = chunkmanifest, priv_zarray = zarray\<rparr>"

section \<open>Properties of a \<open>ManifestArray\<close>\<close>

definition manifest :: "ManifestArray \<Rightarrow> ChunkManifest" where
  "manifest self = priv_manifest self"

definition zarray :: "ManifestArray \<Rightarrow> ZArray option" where
  "zarray self = priv_zarray self"

text \<open>
  \<open>self.zarray.<name>\<close>: reading an attribute of the descriptor raises AttributeError when
  the descriptor is \<open>None\<close>.
\<close>

definition quoted :: "string \<Rightarrow> string" where
  "quoted s = CHR 0x27 # s @ [CHR 0x27]"

definition zarray_attr :: "(ZArray \<Rightarrow> 'a) \<Rightarrow> string \<Rightarrow> ManifestArray \<Rightarrow> error + 'a" where
  "zarray_attr field name self =
     (case zarray self of
        None \<Rightarrow>
          Inl (AttributeError (quoted ''NoneType'' @ '' object has no attribute '' @ quoted name))
      | Some z \<Rightarrow> Inr (field z))"

definition chunks :: "ManifestArray \<Rightarrow> error + int list" where
  "chunks self = zarray_attr zarray_chunks ''chunks'' self"

text \<open>\<open>np.dtype(d)\<close> of a descriptor \<open>d\<close> is \<open>d\<close>.\<close>

definition dtype :: "ManifestArray \<Rightarrow> error + np_dtype" where
  "dtype self = zarray_attr zarray_dtype ''dtype'' self"

text \<open>\<open>int(length)\<close> of an integer is that integer.\<close>

definition shape :: "ManifestArray \<Rightarrow> error + int list" where
  "shape self =
     (case zarray_attr zarray_shape ''shape'' self of
        Inl e \<Rightarrow> Inl e
      | Inr s \<Rightarrow> Inr (map (\<lambda>length. length) s))"

definition ndim :: "ManifestArray \<Rightarrow> error + nat" where
  "ndim self = (case shape self of Inl e \<Rightarrow> Inl e | Inr s \<Rightarrow> Inr (length s))"

text \<open>
  \<open>np.prod\<close> of a tuple of Python integers. numpy first makes an array of the tuple; when
  the tuple is not empty and every entry fits a signed 64-bit integer, the array's element
  type is \<open>int64\<close> (the default integer of numpy on 64-bit Linux and macOS) and the product
  is taken in that type, where multiplication wraps around. For any other tuple numpy
  chooses another element type (\<open>float64\<close> for the empty tuple, \<open>uint64\<close>, \<open>float64\<close> or
  Python objects for larger entries); those results are left uninterpreted.
\<close>

datatype np_scalar = np_int64 "64 word" | np_other_type

definition fits_int64 :: "int \<Rightarrow> bool" where
  "fits_int64 x = (- (2 ^ 63) \<le> x \<and> x < 2 ^ 63)"

definition np_prod :: "int list \<Rightarrow> np_scalar" where
  "np_prod t =
     (if t \<noteq> [] \<and> list_all fits_int64 t
      then np_int64 (foldl (\<lambda>acc x. acc * word_of_int x) 1 t)
      else np_other_type)"

text \<open>The integer an \<open>int64\<close> scalar stands for.\<close>

fun int_of_scalar :: "np_scalar \<Rightarrow> int option" where
  "int_of_scalar (np_int64 w) = Some (sint w)"
| "int_of_scalar np_other_type = None"

definition size_prop :: "ManifestArray \<Rightarrow> error + np_scalar" where
  "size_prop self = (case shape self of Inl e \<Rightarrow> Inl e | Inr s \<Rightarrow> Inr (np_prod s))"

definition T_prop :: "ManifestArray \<Rightarrow> error + ManifestArray" where
  "T_prop self = Inl (NotImplementedError [])"

definition to_zarr :: "ManifestArray \<Rightarrow> 'store \<Rightarrow> error + unit" where
  "to_zarr self store =
     Inl (NotImplementedError
       ''Requires the chunk manifest ZEP to be formalized before we know what to write out here.'')"

definition array_dunder :: "ManifestArray \<Rightarrow> error + 'ndarray" where
  "array_dunder self =
     Inl (NotImplementedError
       ''ManifestArrays can't be converted into numpy arrays or pandas Index objects'')"

definition array_ufunc ::
  "ManifestArray \<Rightarrow> 'ufunc \<Rightarrow> 'method \<Rightarrow> 'inputs \<Rightarrow> 'kwargs \<Rightarrow> 'r hook_result" where
  "array_ufunc self ufunc method inputs kwargs = NotImplemented"

section \<open>The registry of array functions and the dispatch hook\<close>

text \<open>
  A Python class: its name and its direct bases. \<open>issubclass(t, c)\<close> holds when \<open>t\<close> is
  \<open>c\<close> or one of its bases is a subclass of \<open>c\<close>.
\<close>

datatype pytype = PyType (type_name: string) (bases: "pytype list")

fun issubclass :: "pytype \<Rightarrow> pytype \<Rightarrow> bool" where
  "issubclass (PyType n bs) c = (PyType n bs = c \<or> list_ex (\<lambda>b. issubclass b c) bs)"

definition object_type :: pytype where
  "object_type = PyType ''object'' []"

definition ManifestArray_type :: pytype where
  "ManifestArray_type = PyType ''ManifestArray'' [object_type]"

text \<open>The numpy functions that can be asked of the hook.\<close>

datatype np_function = np_concatenate | np_result_type | np_other string

text \<open>
  \<open>implements(numpy_function)(func)\<close>: the decorator stores \<open>func\<close> in the registry
  \<open>HANDLED_ARRAY_FUNCTIONS\<close> under \<open>numpy_function\<close>. The registry is a global dictionary;
  it is passed to the hook as it stands at the time of the call.
\<close>

definition implements ::
  "'f \<Rightarrow> ('a \<Rightarrow> 'k \<Rightarrow> 'r) \<Rightarrow> ('f \<rightharpoonup> ('a \<Rightarrow> 'k \<Rightarrow> 'r)) \<Rightarrow> ('f \<rightharpoonup> ('a \<Rightarrow> 'k \<Rightarrow> 'r))" where
  "implements numpy_function func HANDLED = HANDLED(numpy_function \<mapsto> func)"

text \<open>\<open>ManifestArray.__array_function__(self, func, types, args, kwargs)\<close>.\<close>

definition array_function ::
  "('f \<rightharpoonup> ('a \<Rightarrow> 'k \<Rightarrow> 'r)) \<Rightarrow> ManifestArray \<Rightarrow> 'f \<Rightarrow> pytype list \<Rightarrow> 'a \<Rightarrow> 'k
     \<Rightarrow> 'r hook_result" where
  "array_function HANDLED self func types args kwargs =
     (case HANDLED func of
        None \<Rightarrow> NotImplemented
      | Some impl \<Rightarrow>
          if \<not> list_all (\<lambda>t. issubclass t ManifestArray_type) types then NotImplemented
          else Returned (impl args kwargs))"

section \<open>The compatibility validators\<close>

definition unpack_error :: error where
  "unpack_error = ValueError ''not enough values to unpack (expected at least 1, got 0)''"

text \<open>\<open>_check_same_dtypes\<close>: the loop raises at the first dtype that differs from the first.\<close>

definition check_same_dtypes :: "np_dtype list \<Rightarrow> error + unit" where
  "check_same_dtypes dtypes =
     (case dtypes of
        [] \<Rightarrow> Inl unpack_error
      | first_dtype # other_dtypes \<Rightarrow>
          (case find (\<lambda>other_dtype. other_dtype \<noteq> first_dtype) other_dtypes of
             None \<Rightarrow> Inr ()
           | Some other_dtype \<Rightarrow>
               Inl (ValueError
                 (''Cannot concatenate arrays with inconsistent dtypes: ''
                  @ str_dtype other_dtype @ '' vs '' @ str_dtype first_dtype))))"

text \<open>\<open>_remove_element_at_position\<close>: the pop is done on a fresh copy of the tuple.\<close>

definition remove_element_at_position :: "'a list \<Rightarrow> int \<Rightarrow> error + 'a list" where
  "remove_element_at_position t pos = py_pop t pos"

definition check_same_shapes_except_on_concat_axis ::
  "int list list \<Rightarrow> int \<Rightarrow> error + unit" where
  "check_same_shapes_except_on_concat_axis shapes axis =
     (case comprehension (\<lambda>shape. remove_element_at_position shape axis) shapes of
        Inl e \<Rightarrow> Inl e
      | Inr shapes_without_concat_axis \<Rightarrow>
          (case shapes_without_concat_axis of
             [] \<Rightarrow> Inl unpack_error
           | first_shape # other_shapes \<Rightarrow>
               (case find (\<lambda>other_shape. other_shape \<noteq> first_shape) other_shapes of
                  None \<Rightarrow> Inr ()
                | Some other_shape \<Rightarrow>
                    Inl (ValueError
                      (''Cannot concatenate arrays with shapes ''
                       @ repr_list_of_tuples shapes)))))"

definition check_same_codecs :: "Codec list \<Rightarrow> error + unit" where
  "check_same_codecs codecs =
     (case codecs of
        [] \<Rightarrow> Inl unpack_error
      | first_codec # other_codecs \<Rightarrow>
          (case find (\<lambda>codec. codec \<noteq> first_codec) other_codecs of
             None \<Rightarrow> Inr ()
           | Some codec \<Rightarrow>
               Inl (NotImplementedError
                 (''The ManifestArray class cannot concatenate arrays which were stored using different codecs, ''
                  @ ''But found codecs '' @ str_codec first_codec @ '' vs '' @ str_codec codec @ '' .''
                  @ ''See https://github.com/zarr-developers/zarr-specs/issues/288''))))"

section \<open>Merging manifests and replacing the shape\<close>

text \<open>
  Modelled from the spec: \<open>concat_manifests\<close> of \<open>virtualizarr/manifests/manifest.py\<close>,
  which is not among the sources. The entries of manifest \<open>i\<close> keep their coordinates
  except on the axis, where the coordinate is shifted by the sum of the grid lengths of the
  manifests before it; the grid shape is the first manifest's with the axis entry replaced
  by the sum over all manifests. An empty list, an axis that is not a dimension index
  (negative axes are not normalised), manifests of different rank or with grid shapes
  that differ off the axis, and two entries at one coordinate are failures.
\<close>

fun shifted_entries :: "nat \<Rightarrow> nat \<Rightarrow> ChunkManifest list \<Rightarrow> (nat list \<times> ByteRange) list" where
  "shifted_entries k off [] = []"
| "shifted_entries k off (m # ms) =
     map (\<lambda>(c, r). (c[k := c ! k + off], r)) (entries m)
     @ shifted_entries k (off + grid_shape m ! k) ms"

definition concat_manifests :: "ChunkManifest list \<Rightarrow> int \<Rightarrow> error + ChunkManifest" where
  "concat_manifests manifests axis =
     (case manifests of
        [] \<Rightarrow> Inl (ValueError ''no manifests to concatenate'')
      | first # others \<Rightarrow>
          if axis < 0 \<or> int (length (grid_shape first)) \<le> axis
          then Inl (ValueError ''axis is out of range'')
          else if list_ex (\<lambda>m. length (grid_shape m) \<noteq> length (grid_shape first)) others
          then Inl (ValueError ''manifests of different rank'')
          else if list_ex (\<lambda>m. (grid_shape m)[nat axis := 0] \<noteq> (grid_shape first)[nat axis := 0]) others
          then Inl (ValueError ''grid shapes differ off the axis'')
          else if \<not> distinct (map fst (shifted_entries (nat axis) 0 manifests))
          then Inl (ValueError ''two chunks at one coordinate'')
          else Inr \<lparr>grid_shape =
                      (grid_shape first)
                        [nat axis := sum_list (map (\<lambda>m. grid_shape m ! nat axis) manifests)],
                    entries = shifted_entries (nat axis) 0 manifests\<rparr>)"

text \<open>
  What \<open>new_shape\<close> holds when \<open>_replace_shape\<close> is called: a list of lengths, or the
  \<open>Ellipsis\<close> object that \<open>new_shape = ...\<close> assigns.
\<close>

datatype pyshape = ShapeList "int list" | Ellipsis

text \<open>\<open>_replace_shape\<close>: the body is \<open>...\<close>, so the function returns \<open>None\<close>.\<close>

definition replace_shape :: "ZArray option \<Rightarrow> pyshape \<Rightarrow> ZArray option" where
  "replace_shape old_zarray new_shape = None"

section \<open>\<open>concatenate\<close> and \<open>result_type\<close>\<close>

text \<open>
  What a call of \<open>concatenate\<close> leaves behind: the input arrays as they are after the
  call, the validators passed and the objects built, in order, and the value returned or
  the exception raised.
\<close>

datatype validator = DtypeCheck | ShapeCheck | CodecCheck

datatype event = Validated validator | BuiltManifest ChunkManifest | BuiltArray ManifestArray

record outcome =
  inputs_after :: "ManifestArray list"
  trace :: "event list"
  returned :: "error + ManifestArray"

definition raise :: "ManifestArray list \<Rightarrow> event list \<Rightarrow> error \<Rightarrow> outcome" where
  "raise arrays tr e = \<lparr>inputs_after = arrays, trace = tr, returned = Inl e\<rparr>"

definition axis_none_message :: string where
  "axis_none_message =
     ''If axis=None the array API requires flattening, which is a reshape, which can't be implemented on a ManifestArray.''"

text \<open>The statements of \<open>concatenate\<close> after the three validators.\<close>

definition concatenate_build :: "ManifestArray list \<Rightarrow> int list list \<Rightarrow> int \<Rightarrow> outcome" where
  "concatenate_build arrays shapes axis =
     (let tr = [Validated DtypeCheck, Validated ShapeCheck, Validated CodecCheck] in
      case comprehension (\<lambda>shape. py_getitem shape axis) shapes of
        Inl e \<Rightarrow> raise arrays tr e
      | Inr lengths \<Rightarrow>
      (let new_length_along_concat_axis = sum_list lengths in
       case shapes of
         [] \<Rightarrow> raise arrays tr unpack_error
       | first_shape # _ \<Rightarrow>
       (case py_setitem first_shape axis new_length_along_concat_axis of
          Inl e \<Rightarrow> raise arrays tr e
        | Inr new_shape \<Rightarrow>
        (case concat_manifests (map priv_manifest arrays) axis of
           Inl e \<Rightarrow> raise arrays tr e
         | Inr concatenated_manifest \<Rightarrow>
         (let tr = tr @ [BuiltManifest concatenated_manifest];
              new_shape = Ellipsis in
          case py_getitem arrays 0 of
            Inl e \<Rightarrow> raise arrays tr e
          | Inr first_array \<Rightarrow>
          (let new_zarray = replace_shape (priv_zarray first_array) new_shape;
               result = ManifestArray_init new_zarray concatenated_manifest
           in \<lparr>inputs_after = arrays, trace = tr @ [BuiltArray result],
               returned = Inr result\<rparr>))))))"

definition concatenate :: "ManifestArray list \<Rightarrow> int option \<Rightarrow> outcome" where
  "concatenate arrays axis =
     (case axis of
        None \<Rightarrow> raise arrays [] (NotImplementedError axis_none_message)
      | Some axis \<Rightarrow>
      (case comprehension dtype arrays of
         Inl e \<Rightarrow> raise arrays [] e
       | Inr dtypes \<Rightarrow>
       (case check_same_dtypes dtypes of
          Inl e \<Rightarrow> raise arrays [] e
        | Inr _ \<Rightarrow>
        (case comprehension shape arrays of
           Inl e \<Rightarrow> raise arrays [Validated DtypeCheck] e
         | Inr shapes \<Rightarrow>
         (case check_same_shapes_except_on_concat_axis shapes axis of
            Inl e \<Rightarrow> raise arrays [Validated DtypeCheck] e
          | Inr _ \<Rightarrow>
          (case comprehension (zarray_attr zarray_codec ''codec'') arrays of
             Inl e \<Rightarrow> raise arrays [Validated DtypeCheck, Validated ShapeCheck] e
           | Inr codecs \<Rightarrow>
           (case check_same_codecs codecs of
              Inl e \<Rightarrow> raise arrays [Validated DtypeCheck, Validated ShapeCheck] e
            | Inr _ \<Rightarrow> concatenate_build arrays shapes axis)))))))"

text \<open>
  A call of \<open>concatenate\<close>: the keyword \<open>axis\<close> is passed (\<open>Some\<close>) or left out (\<open>None\<close>),
  and when it is left out the parameter takes the default of the signature, \<open>axis = 0\<close>.
\<close>

definition concatenate_call :: "ManifestArray list \<Rightarrow> int option option \<Rightarrow> outcome" where
  "concatenate_call arrays axis_keyword =
     concatenate arrays (case axis_keyword of None \<Rightarrow> Some 0 | Some axis \<Rightarrow> axis)"

text \<open>
  An argument of \<open>result_type\<close>: an array or a dtype; \<open>np.dtype\<close> of either. For an
  object that is no dtype, numpy reads the attribute \<open>dtype\<close> of the object; when reading
  it raises, numpy drops that exception and raises TypeError, as for any object it cannot
  interpret as a data type.
\<close>

datatype array_or_dtype = AnArray ManifestArray | ADtype np_dtype

fun np_dtype_of :: "array_or_dtype \<Rightarrow> error + np_dtype" where
  "np_dtype_of (AnArray a) =
     (case dtype a of
        Inl e \<Rightarrow> Inl (TypeError ''Cannot interpret the object as a data type'')
      | Inr d \<Rightarrow> Inr d)"
| "np_dtype_of (ADtype d) = Inr d"

definition result_type :: "array_or_dtype list \<Rightarrow> error + np_dtype" where
  "result_type arrays_and_dtypes =
     (case comprehension np_dtype_of arrays_and_dtypes of
        Inl e \<Rightarrow> Inl e
      | Inr dtypes \<Rightarrow>
          (case dtypes of
             [] \<Rightarrow> Inl unpack_error
           | first_dtype # other_dtypes \<Rightarrow>
               (case find (\<lambda>other_dtype. other_dtype \<noteq> first_dtype) other_dtypes of
                  None \<Rightarrow> Inr first_dtype
                | Some other_dtype \<Rightarrow> Inl (ValueError ''dtypes not all consistent''))))"

text \<open>The events that record a newly built object.\<close>

fun is_built :: "event \<Rightarrow> bool" where
  "is_built (Validated v) = False"
| "is_built (BuiltManifest m) = True"
| "is_built (BuiltArray a) = True"

section \<open>What the validators decide\<close>

text \<open>
  An axis is valid for a shape when it is an index of the shape, counted from the front
  or, when negative, from the end.
\<close>

definition valid_axis :: "int list \<Rightarrow> int \<Rightarrow> bool" where
  "valid_axis s axis = (fits_ssize_t axis \<and> py_index (length s) axis \<noteq> None)"

text \<open>
  Two shapes agree off the axis when they have the same rank and the same length in
  every dimension except the one the axis denotes.
\<close>

definition agree_off_axis :: "int list \<Rightarrow> int list \<Rightarrow> int \<Rightarrow> bool" where
  "agree_off_axis s t axis =
     (length s = length t \<and>
      (\<forall>i < length s. py_index (length s) axis \<noteq> Some i \<longrightarrow> s ! i = t ! i))"

section \<open>Example arrays\<close>

text \<open>
  Arrays of one chunk, as in the scenarios of the specification: a descriptor with the
  given shape (also its chunk shape), dtype and codec, and a manifest of grid shape
  \<open>(1, 1)\<close> whose only chunk lies in the given file.
\<close>

definition example_zarray :: "int list \<Rightarrow> string \<Rightarrow> string \<Rightarrow> ZArray" where
  "example_zarray s d c =
     \<lparr>zarray_shape = s, zarray_chunks = s, zarray_dtype = Dtype d, zarray_codec = Codec c\<rparr>"

definition example_manifest :: "string \<Rightarrow> ChunkManifest" where
  "example_manifest path =
     \<lparr>grid_shape = [1, 1],
      entries = [([0, 0], \<lparr>location = path, offset = 0, length_bytes = 100\<rparr>)]\<rparr>"

definition example_array :: "int list \<Rightarrow> string \<Rightarrow> string \<Rightarrow> string \<Rightarrow> ManifestArray" where
  "example_array s d c path = ManifestArray_init (Some (example_zarray s d c)) (example_manifest path)"

text \<open>A manifest of rank one, which cannot be merged with one of rank two.\<close>

definition rank_one_manifest :: "string \<Rightarrow> ChunkManifest" where
  "rank_one_manifest path =
     \<lparr>grid_shape = [1], entries = [([0], \<lparr>location = path, offset = 0, length_bytes = 100\<rparr>)]\<rparr>"

lemmas example_defs =
  example_array_def example_zarray_def example_manifest_def ManifestArray_init_def

lemmas property_defs =
  shape_def dtype_def chunks_def manifest_def zarray_attr_def zarray_def

section \<open>Wrapping a descriptor and a manifest\<close>

text \<open>
  Claim C9. Round trip: a Virtual Array built from a descriptor and a manifest gives back,
  through its properties, exactly the shape, the dtype and the chunk shape of the
  descriptor, and the manifest itself.
\<close>

theorem roundtrip_properties:
  "shape (ManifestArray_init (Some z) m) = Inr (zarray_shape z) \<and>
   dtype (ManifestArray_init (Some z) m) = Inr (zarray_dtype z) \<and>
   chunks (ManifestArray_init (Some z) m) = Inr (zarray_chunks z) \<and>
   manifest (ManifestArray_init (Some z) m) = m"
  by (simp add: property_defs ManifestArray_init_def)

section \<open>Forbidden operations\<close>

text \<open>
  Claim C6. The forbidden operations fail explicitly: converting a Virtual Array into a
  dense array raises NotImplementedError (the unsupported-operation condition), so does
  writing it to a store, and the ufunc hook returns \<open>NotImplemented\<close> for every ufunc,
  method and inputs, without raising.
\<close>

theorem forbidden_operations_fail_explicitly:
  "(array_dunder self :: error + 'ndarray) =
     Inl (NotImplementedError
       ''ManifestArrays can't be converted into numpy arrays or pandas Index objects'') \<and>
   to_zarr self (store :: 'store) =
     Inl (NotImplementedError
       ''Requires the chunk manifest ZEP to be formalized before we know what to write out here.'') \<and>
   (array_ufunc self (ufunc :: 'ufunc) (method :: 'method) (inputs :: 'inputs) (kwargs :: 'kwargs)
      :: 'r hook_result) = NotImplemented"
  by (simp add: array_dunder_def to_zarr_def array_ufunc_def)

section \<open>The element count\<close>

lemma foldl_word_prod:
  "foldl (\<lambda>acc x. acc * word_of_int x) (a :: 64 word) t = a * word_of_int (prod_list t)"
  by (induction t arbitrary: a) (simp_all add: mult.assoc)

lemma sint_word_of_int_wraps:
  "sint (word_of_int k :: 64 word) = (k + 2 ^ 63) mod 2 ^ 64 - 2 ^ 63"
  by (simp add: sint_sbintrunc' signed_take_bit_eq_take_bit_shift take_bit_eq_mod)

lemma sint_word_of_int_exact: "fits_int64 k \<Longrightarrow> sint (word_of_int k :: 64 word) = k"
  by (simp add: sint_sbintrunc' signed_take_bit_int_eq_self_iff fits_int64_def)

text \<open>
  How \<open>size\<close> is computed: for a shape that is not empty and whose entries each fit a
  signed 64-bit integer, it is the product of the entries in wrapping signed 64-bit
  arithmetic, which is the exact product whenever that product itself fits 64 bits.
\<close>

lemma size_wraps_in_int64:
  assumes "shape self = Inr s" and "s \<noteq> []" and "list_all fits_int64 s"
  shows "\<exists>w. size_prop self = Inr (np_int64 w) \<and>
           sint w = (prod_list s + 2 ^ 63) mod 2 ^ 64 - 2 ^ 63 \<and>
           (fits_int64 (prod_list s) \<longrightarrow> int_of_scalar (np_int64 w) = Some (prod_list s))"
proof -
  let ?w = "word_of_int (prod_list s) :: 64 word"
  have "size_prop self = Inr (np_int64 ?w)"
    using assms by (simp add: size_prop_def np_prod_def foldl_word_prod)
  moreover have "sint ?w = (prod_list s + 2 ^ 63) mod 2 ^ 64 - 2 ^ 63"
    by (rule sint_word_of_int_wraps)
  moreover have "fits_int64 (prod_list s) \<longrightarrow> int_of_scalar (np_int64 ?w) = Some (prod_list s)"
    by (simp add: sint_word_of_int_exact)
  ultimately show ?thesis by blast
qed

text \<open>
  Claim C8 asks that \<open>size\<close> is the exact product of the shape entries, also beyond the
  64-bit range. For the shape \<open>2^32\<close> by \<open>2^32\<close>, whose entries fit 64 bits, the exact
  count is \<open>2^64\<close>, and \<open>size\<close> returns 0 without raising.
\<close>

theorem size_not_exact_beyond_int64:
  "size_prop (example_array [2 ^ 32, 2 ^ 32] ''float64'' ''zlib'' ''a.nc'') = Inr (np_int64 0) \<and>
   int_of_scalar (np_int64 0) \<noteq> Some (prod_list [2 ^ 32, 2 ^ 32])"
  by (simp add: size_prop_def np_prod_def property_defs example_defs fits_int64_def)

section \<open>The dispatch hook\<close>

text \<open>
  Claim C5. The hook \<open>__array_function__\<close> returns \<open>NotImplemented\<close>, without raising, when
  the function asked for is not in the registry or when some type among \<open>types\<close> is not
  \<open>ManifestArray\<close> or a subclass of it; otherwise it calls the implementation registered
  for the function with the arguments and returns its result.
\<close>

theorem array_function_dispatch:
  "(func \<notin> dom HANDLED \<or> \<not> list_all (\<lambda>t. issubclass t ManifestArray_type) types
      \<longrightarrow> array_function HANDLED self func types args kwargs = NotImplemented) \<and>
   (\<forall>impl. HANDLED func = Some impl \<and> list_all (\<lambda>t. issubclass t ManifestArray_type) types
      \<longrightarrow> array_function HANDLED self func types args kwargs = Returned (impl args kwargs))"
  by (auto simp: array_function_def split: option.splits)

text \<open>
  With \<open>concatenate\<close> registered: a function that is not registered and an operand type that
  is no subclass are declined, and a call on an array and an array of a subclass is passed
  on to \<open>concatenate\<close>.
\<close>

theorem array_function_dispatch_witness:
  "array_function (implements np_concatenate concatenate_call Map.empty)
     (example_array [3, 4] ''float64'' ''zlib'' ''a.nc'') (np_other ''transpose'')
     [ManifestArray_type] [example_array [3, 4] ''float64'' ''zlib'' ''a.nc''] None
     = NotImplemented \<and>
   array_function (implements np_concatenate concatenate_call Map.empty)
     (example_array [3, 4] ''float64'' ''zlib'' ''a.nc'') np_concatenate
     [ManifestArray_type, object_type] [example_array [3, 4] ''float64'' ''zlib'' ''a.nc''] None
     = NotImplemented \<and>
   array_function (implements np_concatenate concatenate_call Map.empty)
     (example_array [3, 4] ''float64'' ''zlib'' ''a.nc'') np_concatenate
     [ManifestArray_type, PyType ''Subclass'' [ManifestArray_type]]
     [example_array [3, 4] ''float64'' ''zlib'' ''a.nc'',
      example_array [5, 4] ''float64'' ''zlib'' ''b.nc''] (Some (Some 0))
     = Returned (concatenate_call
         [example_array [3, 4] ''float64'' ''zlib'' ''a.nc'',
          example_array [5, 4] ''float64'' ''zlib'' ''b.nc''] (Some (Some 0)))"
  using
    array_function_dispatch
      [of "np_other ''transpose''" "implements np_concatenate concatenate_call Map.empty"
          "[ManifestArray_type]" "example_array [3, 4] ''float64'' ''zlib'' ''a.nc''"
          "[example_array [3, 4] ''float64'' ''zlib'' ''a.nc'']" None]
    array_function_dispatch
      [of np_concatenate "implements np_concatenate concatenate_call Map.empty"
          "[ManifestArray_type, object_type]" "example_array [3, 4] ''float64'' ''zlib'' ''a.nc''"
          "[example_array [3, 4] ''float64'' ''zlib'' ''a.nc'']" None]
    array_function_dispatch
      [of np_concatenate "implements np_concatenate concatenate_call Map.empty"
          "[ManifestArray_type, PyType ''Subclass'' [ManifestArray_type]]"
          "example_array [3, 4] ''float64'' ''zlib'' ''a.nc''"
          "[example_array [3, 4] ''float64'' ''zlib'' ''a.nc'',
            example_array [5, 4] ''float64'' ''zlib'' ''b.nc'']" "Some (Some 0)"]
  by (simp add: implements_def ManifestArray_type_def object_type_def)

section \<open>Concatenation: the axis\<close>

text \<open>
  Claim C4. With \<open>axis=None\<close>, \<open>concatenate\<close> raises NotImplementedError at once, for every
  group of arrays: no validator has been passed, nothing has been built, and the inputs
  are as they were.
\<close>

theorem concatenate_axis_None_fails_first:
  "concatenate arrays None =
     \<lparr>inputs_after = arrays, trace = [],
      returned = Inl (NotImplementedError axis_none_message)\<rparr>"
  by (simp add: concatenate_def raise_def)

text \<open>
  Claim C10. A call of \<open>concatenate\<close> that does not pass \<open>axis\<close> is the call with
  \<open>axis=0\<close>.
\<close>

theorem concatenate_default_axis_zero:
  "concatenate_call arrays None = concatenate_call arrays (Some (Some 0)) \<and>
   concatenate_call arrays None = concatenate arrays (Some 0)"
  by (simp add: concatenate_call_def)

section \<open>Messages of the failures\<close>

text \<open>
  The dtype validator, which runs the same loop as \<open>result_type\<close>, puts both dtypes into
  its message.
\<close>

lemma dtype_message_names_both:
  "sublist (str_dtype d1)
     (''Cannot concatenate arrays with inconsistent dtypes: '' @ str_dtype d1 @ '' vs '' @ str_dtype d2) \<and>
   sublist (str_dtype d2)
     (''Cannot concatenate arrays with inconsistent dtypes: '' @ str_dtype d1 @ '' vs '' @ str_dtype d2)"
proof
  show "sublist (str_dtype d1)
     (''Cannot concatenate arrays with inconsistent dtypes: '' @ str_dtype d1 @ '' vs '' @ str_dtype d2)"
    by (rule sublist_appendI)
  have "sublist (str_dtype d2)
     ((''Cannot concatenate arrays with inconsistent dtypes: '' @ str_dtype d1 @ '' vs '') @ str_dtype d2 @ [])"
    by (rule sublist_appendI)
  then show "sublist (str_dtype d2)
     (''Cannot concatenate arrays with inconsistent dtypes: '' @ str_dtype d1 @ '' vs '' @ str_dtype d2)"
    by (simp only: append_assoc append_Nil2)
qed

lemma check_same_dtypes_names_values:
  assumes "check_same_dtypes (first_dtype # other_dtypes) = Inl e"
  shows "\<exists>other_dtype \<in> set other_dtypes. other_dtype \<noteq> first_dtype \<and>
           sublist (str_dtype other_dtype) (message e) \<and>
           sublist (str_dtype first_dtype) (message e)"
proof (cases "find (\<lambda>other_dtype. other_dtype \<noteq> first_dtype) other_dtypes")
  case None
  with assms show ?thesis by (simp add: check_same_dtypes_def)
next
  case (Some d)
  then have "d \<in> set other_dtypes" and "d \<noteq> first_dtype"
    by (auto simp: find_Some_iff)
  moreover from Some assms have
    "message e = ''Cannot concatenate arrays with inconsistent dtypes: '' @ str_dtype d @ '' vs '' @ str_dtype first_dtype"
    by (auto simp: check_same_dtypes_def)
  ultimately show ?thesis
    using dtype_message_names_both [of d first_dtype] by auto
qed

text \<open>
  Claim C3 asks that every incompatibility failure names the conflicting values. For
  \<open>result_type\<close> on \<open>float64\<close> and \<open>int32\<close> the ValueError raised has the fixed message
  \<open>dtypes not all consistent\<close>, which contains neither name.
\<close>

theorem result_type_message_names_no_dtype:
  "result_type [ADtype (Dtype ''float64''), ADtype (Dtype ''int32'')]
     = Inl (ValueError ''dtypes not all consistent'') \<and>
   \<not> sublist (str_dtype (Dtype ''float64'')) (message (ValueError ''dtypes not all consistent'')) \<and>
   \<not> sublist (str_dtype (Dtype ''int32'')) (message (ValueError ''dtypes not all consistent''))"
  by (simp add: result_type_def str_dtype_def sublist_code)

section \<open>The stages of \<open>concatenate\<close>\<close>

lemma comprehension_length:
  "comprehension f xs = Inr ys \<Longrightarrow> length ys = length xs"
  by (induction xs arbitrary: ys) (auto split: sum.splits)

lemma check_same_dtypes_nonempty: "check_same_dtypes ds = Inr u \<Longrightarrow> ds \<noteq> []"
  by (auto simp: check_same_dtypes_def unpack_error_def)

lemma getitem_first: "arrays \<noteq> [] \<Longrightarrow> py_getitem arrays 0 = Inr (hd arrays)"
  by (cases arrays) (simp_all add: py_getitem_def py_index_def fits_ssize_t_def)

lemma build_cases:
  assumes "arrays \<noteq> []"
  shows "(\<exists>e. concatenate_build arrays shapes ax =
            raise arrays [Validated DtypeCheck, Validated ShapeCheck, Validated CodecCheck] e) \<or>
         (\<exists>m. concat_manifests (map priv_manifest arrays) ax = Inr m \<and>
              concatenate_build arrays shapes ax =
               \<lparr>inputs_after = arrays,
                trace = [Validated DtypeCheck, Validated ShapeCheck, Validated CodecCheck,
                         BuiltManifest m, BuiltArray (ManifestArray_init None m)],
                returned = Inr (ManifestArray_init None m)\<rparr>)"
  using assms
  by (auto simp: concatenate_build_def Let_def getitem_first replace_shape_def
           split: sum.splits list.splits)

lemma concatenate_stages:
  "(\<exists>e tr. concatenate arrays (Some ax) = raise arrays tr e \<and>
       tr \<in> {[], [Validated DtypeCheck], [Validated DtypeCheck, Validated ShapeCheck]}) \<or>
   (\<exists>shapes. arrays \<noteq> [] \<and> concatenate arrays (Some ax) = concatenate_build arrays shapes ax)"
proof (cases "\<exists>ds u. comprehension dtype arrays = Inr ds \<and> check_same_dtypes ds = Inr u")
  case False
  then show ?thesis
    by (auto simp: concatenate_def split: sum.splits)
next
  case True
  then obtain ds u where ds: "comprehension dtype arrays = Inr ds" "check_same_dtypes ds = Inr u"
    by blast
  then have ne: "arrays \<noteq> []"
    using comprehension_length check_same_dtypes_nonempty by fastforce
  then show ?thesis
    using ds by (auto simp: concatenate_def split: sum.splits)
qed

lemma concatenate_cases:
  "(\<exists>e tr. concatenate arrays (Some ax) = raise arrays tr e \<and>
       tr \<in> {[], [Validated DtypeCheck], [Validated DtypeCheck, Validated ShapeCheck],
              [Validated DtypeCheck, Validated ShapeCheck, Validated CodecCheck]}) \<or>
   (\<exists>m. concat_manifests (map priv_manifest arrays) ax = Inr m \<and>
        concatenate arrays (Some ax) =
          \<lparr>inputs_after = arrays,
           trace = [Validated DtypeCheck, Validated ShapeCheck, Validated CodecCheck,
                    BuiltManifest m, BuiltArray (ManifestArray_init None m)],
           returned = Inr (ManifestArray_init None m)\<rparr>)"
  using concatenate_stages [of arrays ax]
proof (elim disjE exE conjE)
  fix e tr
  assume "concatenate arrays (Some ax) = raise arrays tr e"
    and "tr \<in> {[], [Validated DtypeCheck], [Validated DtypeCheck, Validated ShapeCheck]}"
  then show ?thesis by blast
next
  fix shapes
  assume ne: "arrays \<noteq> []"
    and eq: "concatenate arrays (Some ax) = concatenate_build arrays shapes ax"
  show ?thesis
    using build_cases [OF ne, of shapes ax] unfolding eq by blast
qed


lemmas concatenate_defs =
  concatenate_def concatenate_build_def raise_def check_same_dtypes_def
  check_same_shapes_except_on_concat_axis_def check_same_codecs_def
  remove_element_at_position_def py_pop_def py_index_def py_getitem_def py_setitem_def
  fits_ssize_t_def
  concat_manifests_def replace_shape_def str_dtype_def str_codec_def
  repr_list_of_tuples_def repr_tuple_def str_int_def Let_def

section \<open>Concatenation: the result\<close>

text \<open>
  Claim C1 asks that the result has the first input's shape with the axis entry replaced
  by the sum of the lengths, and the other metadata of the first input. For the arrays of
  shapes \<open>(3, 4)\<close> and \<open>(5, 4)\<close> on axis 0, \<open>concatenate\<close> returns an array with the
  concatenated manifest whose descriptor is \<open>None\<close>: the shape computed is overwritten by
  \<open>new_shape = ...\<close> and \<open>_replace_shape\<close> has no body. Reading the shape of the result
  raises AttributeError; it is not \<open>(8, 4)\<close>.
\<close>

theorem concatenate_result_has_no_descriptor:
  "returned (concatenate [example_array [3, 4] ''float64'' ''zlib'' ''a.nc'',
                          example_array [5, 4] ''float64'' ''zlib'' ''b.nc''] (Some 0)) =
     Inr \<lparr>priv_manifest =
            \<lparr>grid_shape = [2, 1],
             entries = [([0, 0], \<lparr>location = ''a.nc'', offset = 0, length_bytes = 100\<rparr>),
                        ([1, 0], \<lparr>location = ''b.nc'', offset = 0, length_bytes = 100\<rparr>)]\<rparr>,
          priv_zarray = None\<rparr> \<and>
   shape \<lparr>priv_manifest =
            \<lparr>grid_shape = [2, 1],
             entries = [([0, 0], \<lparr>location = ''a.nc'', offset = 0, length_bytes = 100\<rparr>),
                        ([1, 0], \<lparr>location = ''b.nc'', offset = 0, length_bytes = 100\<rparr>)]\<rparr>,
          priv_zarray = None\<rparr> = Inl (AttributeError (quoted ''NoneType'' @ '' object has no attribute '' @ quoted ''shape''))"
  by (simp add: concatenate_defs property_defs example_defs)

text \<open>The same for every call that returns: the result never has a descriptor.\<close>

lemma concatenate_never_sets_descriptor:
  "returned (concatenate arrays axis) = Inr r \<Longrightarrow> priv_zarray r = None"
proof (cases axis)
  case None
  assume "returned (concatenate arrays axis) = Inr r"
  with None show ?thesis by (simp add: concatenate_def raise_def)
next
  case (Some ax)
  assume "returned (concatenate arrays axis) = Inr r"
  with Some concatenate_cases [of arrays ax] show ?thesis
    by (auto simp: raise_def ManifestArray_init_def)
qed

section \<open>Concatenation: the validators\<close>

subsection \<open>Removing the axis entry and agreeing off the axis\<close>

lemma drop_one_eq_iff:
  assumes "k < length s" and "length t = length s"
  shows "take k s @ drop (Suc k) s = take k t @ drop (Suc k) t
           \<longleftrightarrow> (\<forall>i < length s. i \<noteq> k \<longrightarrow> s ! i = t ! i)"
proof
  assume eq: "take k s @ drop (Suc k) s = take k t @ drop (Suc k) t"
  then have tk: "take k s = take k t" and dr: "drop (Suc k) s = drop (Suc k) t"
    using assms by auto
  show "\<forall>i < length s. i \<noteq> k \<longrightarrow> s ! i = t ! i"
  proof (intro allI impI)
    fix i assume i: "i < length s" "i \<noteq> k"
    show "s ! i = t ! i"
    proof (cases "i < k")
      case True
      then have "s ! i = take k s ! i" "t ! i = take k t ! i" by simp_all
      with tk show ?thesis by simp
    next
      case False
      with i have "Suc k \<le> i" by simp
      then have "s ! i = drop (Suc k) s ! (i - Suc k)" "t ! i = drop (Suc k) t ! (i - Suc k)"
        using i assms by simp_all
      with dr show ?thesis by simp
    qed
  qed
next
  assume all: "\<forall>i < length s. i \<noteq> k \<longrightarrow> s ! i = t ! i"
  have "take k s = take k t"
    using assms all by (intro nth_take_lemma) auto
  moreover have "drop (Suc k) s = drop (Suc k) t"
    using assms all by (intro nth_equalityI) auto
  ultimately show "take k s @ drop (Suc k) s = take k t @ drop (Suc k) t" by simp
qed

lemma py_index_bound: "py_index n i = Some k \<Longrightarrow> k < n"
  by (auto simp: py_index_def split: if_splits)

lemma remove_valid:
  assumes "valid_axis s axis"
  shows "\<exists>k. py_index (length s) axis = Some k \<and> k < length s \<and>
           remove_element_at_position s axis = Inr (take k s @ drop (Suc k) s)"
  using assms py_index_bound [of "length s" axis]
  by (auto simp: valid_axis_def remove_element_at_position_def py_pop_def py_index_def
      split: option.splits if_splits)

lemma remove_agree:
  assumes "valid_axis s axis" and "valid_axis t axis"
  shows "remove_element_at_position s axis = remove_element_at_position t axis
           \<longleftrightarrow> agree_off_axis s t axis"
proof -
  from remove_valid [OF assms(1)] obtain k where
    k: "py_index (length s) axis = Some k" "k < length s"
       "remove_element_at_position s axis = Inr (take k s @ drop (Suc k) s)" by blast
  from remove_valid [OF assms(2)] obtain j where
    j: "py_index (length t) axis = Some j" "j < length t"
       "remove_element_at_position t axis = Inr (take j t @ drop (Suc j) t)" by blast
  show ?thesis
  proof (cases "length s = length t")
    case True
    with k(1) j(1) have jk: "j = k" by simp
    have "remove_element_at_position s axis = remove_element_at_position t axis
            \<longleftrightarrow> take k s @ drop (Suc k) s = take k t @ drop (Suc k) t"
      unfolding k(3) j(3) jk by simp
    also have "\<dots> \<longleftrightarrow> (\<forall>i < length s. i \<noteq> k \<longrightarrow> s ! i = t ! i)"
      using drop_one_eq_iff [OF k(2) True [symmetric]] .
    also have "\<dots> \<longleftrightarrow> agree_off_axis s t axis"
      unfolding agree_off_axis_def k(1) using True by auto
    finally show ?thesis .
  next
    case False
    have "length (take k s @ drop (Suc k) s) \<noteq> length (take j t @ drop (Suc j) t)"
      using False k(2) j(2) by simp
    then have "take k s @ drop (Suc k) s \<noteq> take j t @ drop (Suc j) t"
      by (rule contrapos_nn) simp
    then have "remove_element_at_position s axis \<noteq> remove_element_at_position t axis"
      unfolding k(3) j(3) by simp
    moreover have "\<not> agree_off_axis s t axis"
      using False by (simp add: agree_off_axis_def)
    ultimately show ?thesis by simp
  qed
qed

subsection \<open>The validators on the descriptors\<close>

lemma comprehension_Inr:
  "comprehension f xs = Inr ys \<Longrightarrow>
     ys = map (\<lambda>x. projr (f x)) xs \<and> (\<forall>x \<in> set xs. f x = Inr (projr (f x)))"
  by (induction xs arbitrary: ys) (auto split: sum.splits)

lemma comprehension_total:
  "\<forall>x \<in> set xs. f x = Inr (g x) \<Longrightarrow> comprehension f xs = Inr (map g xs)"
  by (induction xs) auto

lemma comprehension_attr:
  "map priv_zarray arrays = map Some zs \<Longrightarrow>
     comprehension (zarray_attr field name) arrays = Inr (map field zs)"
proof (induction arrays arbitrary: zs)
  case Nil
  then show ?case by simp
next
  case (Cons a arrays)
  then obtain z zs' where "zs = z # zs'" "priv_zarray a = Some z"
    "map priv_zarray arrays = map Some zs'"
    by (cases zs) auto
  with Cons.IH [of zs'] show ?case
    by (simp add: zarray_attr_def zarray_def)
qed

lemma dtype_is_attr: "dtype = zarray_attr zarray_dtype ''dtype''"
  by (rule ext) (simp add: dtype_def)

lemma shape_is_attr: "shape = zarray_attr zarray_shape ''shape''"
  by (rule ext) (simp add: shape_def split: sum.splits)

lemma find_first:
  "\<exists>x \<in> set xs. P x \<Longrightarrow> \<exists>x \<in> set xs. P x \<and> find P xs = Some x"
  by (induction xs) auto

lemma check_same_dtypes_pass:
  "\<forall>x \<in> set ds. x = d \<Longrightarrow> check_same_dtypes (d # ds) = Inr ()"
  by (simp add: check_same_dtypes_def find_None_iff split: option.splits)

lemma check_same_dtypes_fail:
  assumes "\<exists>x \<in> set ds. x \<noteq> d"
  shows "\<exists>x \<in> set ds. x \<noteq> d \<and>
           check_same_dtypes (d # ds) =
             Inl (ValueError (''Cannot concatenate arrays with inconsistent dtypes: ''
                              @ str_dtype x @ '' vs '' @ str_dtype d))"
  using find_first [of ds "\<lambda>x. x \<noteq> d", OF assms]
  by (auto simp: check_same_dtypes_def)

lemma check_same_codecs_pass:
  "\<forall>x \<in> set cs. x = c \<Longrightarrow> check_same_codecs (c # cs) = Inr ()"
  by (simp add: check_same_codecs_def find_None_iff split: option.splits)

lemma check_same_codecs_fail:
  assumes "\<exists>x \<in> set cs. x \<noteq> c"
  shows "\<exists>x \<in> set cs. x \<noteq> c \<and>
           check_same_codecs (c # cs) =
             Inl (NotImplementedError
                 (''The ManifestArray class cannot concatenate arrays which were stored using different codecs, ''
                  @ ''But found codecs '' @ str_codec c @ '' vs '' @ str_codec x @ '' .''
                  @ ''See https://github.com/zarr-developers/zarr-specs/issues/288''))"
  using find_first [of cs "\<lambda>x. x \<noteq> c", OF assms]
  by (auto simp: check_same_codecs_def)

lemma remove_Inr_valid:
  "remove_element_at_position s axis = Inr r \<Longrightarrow> valid_axis s axis"
  by (auto simp: valid_axis_def remove_element_at_position_def py_pop_def
      split: if_splits option.splits)

lemma remove_valid_Inr:
  "valid_axis s axis \<Longrightarrow>
     remove_element_at_position s axis = Inr (projr (remove_element_at_position s axis))"
  using remove_valid [of s axis] by auto

lemma projr_remove_agree:
  assumes "valid_axis s axis" and "valid_axis t axis"
  shows "projr (remove_element_at_position s axis) = projr (remove_element_at_position t axis)
           \<longleftrightarrow> agree_off_axis s t axis"
  using remove_agree [OF assms] remove_valid_Inr [OF assms(1)] remove_valid_Inr [OF assms(2)]
  by (metis sum.inject(2))

lemma projr_remove_agree_sym:
  assumes "valid_axis s axis" and "valid_axis x axis"
  shows "projr (remove_element_at_position x axis) = projr (remove_element_at_position s axis)
           \<longleftrightarrow> agree_off_axis s x axis"
  using projr_remove_agree [OF assms] by auto

lemma check_same_shapes_pass:
  assumes "\<forall>x \<in> set (s # ss). valid_axis x axis"
    and "\<forall>x \<in> set ss. agree_off_axis s x axis"
  shows "check_same_shapes_except_on_concat_axis (s # ss) axis = Inr ()"
proof -
  have c: "comprehension (\<lambda>shape. remove_element_at_position shape axis) (s # ss)
          = Inr (map (\<lambda>x. projr (remove_element_at_position x axis)) (s # ss))"
    using assms(1) by (intro comprehension_total) (auto intro: remove_valid_Inr)
  have "find (\<lambda>other_shape. other_shape \<noteq> projr (remove_element_at_position s axis))
          (map (\<lambda>x. projr (remove_element_at_position x axis)) ss) = None"
    using assms by (auto simp: find_None_iff projr_remove_agree_sym)
  with c show ?thesis
    unfolding check_same_shapes_except_on_concat_axis_def by simp
qed

lemma check_same_shapes_fail:
  assumes "\<forall>x \<in> set (s # ss). valid_axis x axis"
    and "\<exists>x \<in> set ss. \<not> agree_off_axis s x axis"
  shows "check_same_shapes_except_on_concat_axis (s # ss) axis =
           Inl (ValueError (''Cannot concatenate arrays with shapes ''
                            @ repr_list_of_tuples (s # ss)))"
proof -
  have c: "comprehension (\<lambda>shape. remove_element_at_position shape axis) (s # ss)
          = Inr (map (\<lambda>x. projr (remove_element_at_position x axis)) (s # ss))"
    using assms(1) by (intro comprehension_total) (auto intro: remove_valid_Inr)
  have "\<exists>y. find (\<lambda>other_shape. other_shape \<noteq> projr (remove_element_at_position s axis))
          (map (\<lambda>x. projr (remove_element_at_position x axis)) ss) = Some y"
    using assms
    by (cases "find (\<lambda>other_shape. other_shape \<noteq> projr (remove_element_at_position s axis))
          (map (\<lambda>x. projr (remove_element_at_position x axis)) ss)")
       (auto simp: find_None_iff projr_remove_agree_sym)
  with c show ?thesis
    unfolding check_same_shapes_except_on_concat_axis_def by auto
qed

lemma check_same_shapes_Inr:
  assumes "check_same_shapes_except_on_concat_axis (s # ss) axis = Inr u"
  shows "(\<forall>x \<in> set (s # ss). valid_axis x axis) \<and> (\<forall>x \<in> set ss. agree_off_axis s x axis)"
proof -
  from assms obtain rs where
    rs: "comprehension (\<lambda>shape. remove_element_at_position shape axis) (s # ss) = Inr rs"
    by (auto simp: check_same_shapes_except_on_concat_axis_def split: sum.splits)
  from comprehension_Inr [OF rs] have
    valid: "\<forall>x \<in> set (s # ss). valid_axis x axis"
    by (metis remove_Inr_valid)
  have "\<not> (\<exists>x \<in> set ss. \<not> agree_off_axis s x axis)"
  proof
    assume "\<exists>x \<in> set ss. \<not> agree_off_axis s x axis"
    from check_same_shapes_fail [OF valid this] assms show False by simp
  qed
  with valid show ?thesis by blast
qed

lemma agree_ex1: "\<not> agree_off_axis [3, 4] [5, 7] 0"
  by (simp add: agree_off_axis_def py_index_def All_less_Suc)
lemma agree_ex2: "agree_off_axis [3, 4] [5, 4] 0"
  by (simp add: agree_off_axis_def py_index_def All_less_Suc)
lemma valid_ex: "valid_axis [3, 4] 0" "valid_axis [5,7] 0" "valid_axis [5,4] 0"
  by (simp_all add: valid_axis_def py_index_def fits_ssize_t_def)

text \<open>
  Claim C2. For arrays that have descriptors, on an axis: a dtype that differs from the
  first makes \<open>concatenate\<close> raise the ValueError of the dtype validator, with no validator
  passed and nothing built, whatever the manifests are; with equal dtypes and an axis
  valid for every shape, a shape that does not agree with the first off the axis makes it
  raise the ValueError of the shape validator, after the dtype validator alone; with
  agreeing shapes too, a codec that differs from the first makes it raise the
  NotImplementedError of the codec validator, after the other two. Whenever a manifest
  or an array has been built, the dtypes are equal, the shapes agree off the axis and the
  codecs are equal, and the three validators come first in the trace. A call that raises
  has built nothing, and the inputs are as they were.
\<close>

theorem checks_precede_construction:
  assumes "map priv_zarray arrays = map Some (z # zs)"
  shows
    "((\<exists>x \<in> set zs. zarray_dtype x \<noteq> zarray_dtype z) \<longrightarrow>
        (\<exists>x \<in> set zs. zarray_dtype x \<noteq> zarray_dtype z \<and>
           concatenate arrays (Some axis) =
             \<lparr>inputs_after = arrays, trace = [],
              returned = Inl (ValueError
                (''Cannot concatenate arrays with inconsistent dtypes: ''
                 @ str_dtype (zarray_dtype x) @ '' vs '' @ str_dtype (zarray_dtype z)))\<rparr>)) \<and>
     ((\<forall>x \<in> set zs. zarray_dtype x = zarray_dtype z) \<and>
      (\<forall>x \<in> set (z # zs). valid_axis (zarray_shape x) axis) \<and>
      (\<exists>x \<in> set zs. \<not> agree_off_axis (zarray_shape z) (zarray_shape x) axis) \<longrightarrow>
        concatenate arrays (Some axis) =
          \<lparr>inputs_after = arrays, trace = [Validated DtypeCheck],
           returned = Inl (ValueError
             (''Cannot concatenate arrays with shapes ''
              @ repr_list_of_tuples (map zarray_shape (z # zs))))\<rparr>) \<and>
     ((\<forall>x \<in> set zs. zarray_dtype x = zarray_dtype z) \<and>
      (\<forall>x \<in> set (z # zs). valid_axis (zarray_shape x) axis) \<and>
      (\<forall>x \<in> set zs. agree_off_axis (zarray_shape z) (zarray_shape x) axis) \<and>
      (\<exists>x \<in> set zs. zarray_codec x \<noteq> zarray_codec z) \<longrightarrow>
        (\<exists>x \<in> set zs. zarray_codec x \<noteq> zarray_codec z \<and>
           concatenate arrays (Some axis) =
             \<lparr>inputs_after = arrays, trace = [Validated DtypeCheck, Validated ShapeCheck],
              returned = Inl (NotImplementedError
                (''The ManifestArray class cannot concatenate arrays which were stored using different codecs, ''
                 @ ''But found codecs '' @ str_codec (zarray_codec z) @ '' vs ''
                 @ str_codec (zarray_codec x) @ '' .''
                 @ ''See https://github.com/zarr-developers/zarr-specs/issues/288''))\<rparr>)) \<and>
     (list_ex is_built (trace (concatenate arrays (Some axis))) \<longrightarrow>
        (\<forall>x \<in> set zs. zarray_dtype x = zarray_dtype z) \<and>
        (\<forall>x \<in> set (z # zs). valid_axis (zarray_shape x) axis) \<and>
        (\<forall>x \<in> set zs. agree_off_axis (zarray_shape z) (zarray_shape x) axis) \<and>
        (\<forall>x \<in> set zs. zarray_codec x = zarray_codec z) \<and>
        (\<exists>m. concat_manifests (map priv_manifest arrays) axis = Inr m \<and>
           trace (concatenate arrays (Some axis)) =
             [Validated DtypeCheck, Validated ShapeCheck, Validated CodecCheck,
              BuiltManifest m, BuiltArray (ManifestArray_init None m)])) \<and>
     (isl (returned (concatenate arrays (Some axis))) \<longrightarrow>
        \<not> list_ex is_built (trace (concatenate arrays (Some axis)))) \<and>
     inputs_after (concatenate arrays (Some axis)) = arrays"
proof -
  let ?ds = "map zarray_dtype zs" and ?ss = "map zarray_shape zs" and ?cs = "map zarray_codec zs"
  have D: "comprehension dtype arrays = Inr (zarray_dtype z # ?ds)"
    using comprehension_attr [OF assms, of zarray_dtype "''dtype''"] by (simp add: dtype_is_attr)
  have S: "comprehension shape arrays = Inr (zarray_shape z # ?ss)"
    using comprehension_attr [OF assms, of zarray_shape "''shape''"] by (simp add: shape_is_attr)
  have C: "comprehension (zarray_attr zarray_codec ''codec'') arrays = Inr (zarray_codec z # ?cs)"
    using comprehension_attr [OF assms, of zarray_codec "''codec''"] by simp
  have dtypes_pass: "check_same_dtypes (zarray_dtype z # ?ds) = Inr ()"
    if "\<forall>x \<in> set zs. zarray_dtype x = zarray_dtype z"
    using that by (intro check_same_dtypes_pass) auto
  have shapes_pass: "check_same_shapes_except_on_concat_axis (zarray_shape z # ?ss) axis = Inr ()"
    if "\<forall>x \<in> set (z # zs). valid_axis (zarray_shape x) axis"
      and "\<forall>x \<in> set zs. agree_off_axis (zarray_shape z) (zarray_shape x) axis"
    using that by (intro check_same_shapes_pass) auto
  have A: "\<exists>x \<in> set zs. zarray_dtype x \<noteq> zarray_dtype z \<and>
           concatenate arrays (Some axis) =
             \<lparr>inputs_after = arrays, trace = [],
              returned = Inl (ValueError
                (''Cannot concatenate arrays with inconsistent dtypes: ''
                 @ str_dtype (zarray_dtype x) @ '' vs '' @ str_dtype (zarray_dtype z)))\<rparr>"
    if "\<exists>x \<in> set zs. zarray_dtype x \<noteq> zarray_dtype z"
  proof -
    from that have "\<exists>d \<in> set ?ds. d \<noteq> zarray_dtype z" by auto
    from check_same_dtypes_fail [OF this] obtain d where
      d: "d \<in> set ?ds" "d \<noteq> zarray_dtype z"
         "check_same_dtypes (zarray_dtype z # ?ds) =
            Inl (ValueError (''Cannot concatenate arrays with inconsistent dtypes: ''
                             @ str_dtype d @ '' vs '' @ str_dtype (zarray_dtype z)))"
      by blast
    from d(1) obtain x where x: "x \<in> set zs" "d = zarray_dtype x" by auto
    have "concatenate arrays (Some axis) =
             \<lparr>inputs_after = arrays, trace = [],
              returned = Inl (ValueError
                (''Cannot concatenate arrays with inconsistent dtypes: ''
                 @ str_dtype d @ '' vs '' @ str_dtype (zarray_dtype z)))\<rparr>"
      by (simp add: concatenate_def raise_def D d(3))
    with x d(2) show ?thesis by blast
  qed
  have B: "concatenate arrays (Some axis) =
          \<lparr>inputs_after = arrays, trace = [Validated DtypeCheck],
           returned = Inl (ValueError
             (''Cannot concatenate arrays with shapes ''
              @ repr_list_of_tuples (map zarray_shape (z # zs))))\<rparr>"
    if "\<forall>x \<in> set zs. zarray_dtype x = zarray_dtype z"
      and "\<forall>x \<in> set (z # zs). valid_axis (zarray_shape x) axis"
      and "\<exists>x \<in> set zs. \<not> agree_off_axis (zarray_shape z) (zarray_shape x) axis"
  proof -
    have "check_same_shapes_except_on_concat_axis (zarray_shape z # ?ss) axis =
           Inl (ValueError (''Cannot concatenate arrays with shapes ''
                            @ repr_list_of_tuples (zarray_shape z # ?ss)))"
      using that(2,3) by (intro check_same_shapes_fail) auto
    then show ?thesis
      by (simp add: concatenate_def raise_def D S dtypes_pass [OF that(1)])
  qed
  have Cc: "\<exists>x \<in> set zs. zarray_codec x \<noteq> zarray_codec z \<and>
           concatenate arrays (Some axis) =
             \<lparr>inputs_after = arrays, trace = [Validated DtypeCheck, Validated ShapeCheck],
              returned = Inl (NotImplementedError
                (''The ManifestArray class cannot concatenate arrays which were stored using different codecs, ''
                 @ ''But found codecs '' @ str_codec (zarray_codec z) @ '' vs ''
                 @ str_codec (zarray_codec x) @ '' .''
                 @ ''See https://github.com/zarr-developers/zarr-specs/issues/288''))\<rparr>"
    if "\<forall>x \<in> set zs. zarray_dtype x = zarray_dtype z"
      and "\<forall>x \<in> set (z # zs). valid_axis (zarray_shape x) axis"
      and "\<forall>x \<in> set zs. agree_off_axis (zarray_shape z) (zarray_shape x) axis"
      and "\<exists>x \<in> set zs. zarray_codec x \<noteq> zarray_codec z"
  proof -
    from that(4) have "\<exists>c \<in> set ?cs. c \<noteq> zarray_codec z" by auto
    from check_same_codecs_fail [OF this] obtain c where
      c: "c \<in> set ?cs" "c \<noteq> zarray_codec z"
         "check_same_codecs (zarray_codec z # ?cs) =
            Inl (NotImplementedError
                 (''The ManifestArray class cannot concatenate arrays which were stored using different codecs, ''
                  @ ''But found codecs '' @ str_codec (zarray_codec z) @ '' vs '' @ str_codec c @ '' .''
                  @ ''See https://github.com/zarr-developers/zarr-specs/issues/288''))"
      by blast
    from c(1) obtain x where x: "x \<in> set zs" "c = zarray_codec x" by auto
    have "concatenate arrays (Some axis) =
             \<lparr>inputs_after = arrays, trace = [Validated DtypeCheck, Validated ShapeCheck],
              returned = Inl (NotImplementedError
                (''The ManifestArray class cannot concatenate arrays which were stored using different codecs, ''
                 @ ''But found codecs '' @ str_codec (zarray_codec z) @ '' vs ''
                 @ str_codec c @ '' .''
                 @ ''See https://github.com/zarr-developers/zarr-specs/issues/288''))\<rparr>"
      by (simp add: concatenate_def raise_def D S C dtypes_pass [OF that(1)]
            shapes_pass [OF that(2,3)] c(3))
    with x c(2) show ?thesis by blast
  qed
  have cases: "(\<exists>e tr. concatenate arrays (Some axis) = raise arrays tr e \<and>
       tr \<in> {[], [Validated DtypeCheck], [Validated DtypeCheck, Validated ShapeCheck],
              [Validated DtypeCheck, Validated ShapeCheck, Validated CodecCheck]}) \<or>
   (\<exists>m. concat_manifests (map priv_manifest arrays) axis = Inr m \<and>
        concatenate arrays (Some axis) =
          \<lparr>inputs_after = arrays,
           trace = [Validated DtypeCheck, Validated ShapeCheck, Validated CodecCheck,
                    BuiltManifest m, BuiltArray (ManifestArray_init None m)],
           returned = Inr (ManifestArray_init None m)\<rparr>)"
    by (rule concatenate_cases)
  have E: "\<not> list_ex is_built (trace (concatenate arrays (Some axis)))"
    if "isl (returned (concatenate arrays (Some axis)))"
    using cases that by (auto simp: raise_def)
  have F: "inputs_after (concatenate arrays (Some axis)) = arrays"
    using cases by (auto simp: raise_def)
  have G: "(\<forall>x \<in> set zs. zarray_dtype x = zarray_dtype z) \<and>
        (\<forall>x \<in> set (z # zs). valid_axis (zarray_shape x) axis) \<and>
        (\<forall>x \<in> set zs. agree_off_axis (zarray_shape z) (zarray_shape x) axis) \<and>
        (\<forall>x \<in> set zs. zarray_codec x = zarray_codec z) \<and>
        (\<exists>m. concat_manifests (map priv_manifest arrays) axis = Inr m \<and>
           trace (concatenate arrays (Some axis)) =
             [Validated DtypeCheck, Validated ShapeCheck, Validated CodecCheck,
              BuiltManifest m, BuiltArray (ManifestArray_init None m)])"
    if built: "list_ex is_built (trace (concatenate arrays (Some axis)))"
  proof -
    have 1: "\<forall>x \<in> set zs. zarray_dtype x = zarray_dtype z"
    proof (rule ccontr)
      assume "\<not> (\<forall>x \<in> set zs. zarray_dtype x = zarray_dtype z)"
      then have "\<exists>x \<in> set zs. zarray_dtype x \<noteq> zarray_dtype z" by blast
      from A [OF this] built show False by auto
    qed
    have sh: "\<exists>u. check_same_shapes_except_on_concat_axis (zarray_shape z # ?ss) axis = Inr u"
      using built
      by (cases "check_same_shapes_except_on_concat_axis (zarray_shape z # ?ss) axis")
         (simp_all add: concatenate_def raise_def D S dtypes_pass [OF 1])
    then obtain u where "check_same_shapes_except_on_concat_axis (zarray_shape z # ?ss) axis = Inr u"
      by blast
    from check_same_shapes_Inr [OF this] have
      2: "\<forall>x \<in> set (z # zs). valid_axis (zarray_shape x) axis"
      and 3: "\<forall>x \<in> set zs. agree_off_axis (zarray_shape z) (zarray_shape x) axis"
      by auto
    have 4: "\<forall>x \<in> set zs. zarray_codec x = zarray_codec z"
    proof (rule ccontr)
      assume "\<not> (\<forall>x \<in> set zs. zarray_codec x = zarray_codec z)"
      then have "\<exists>x \<in> set zs. zarray_codec x \<noteq> zarray_codec z" by blast
      from Cc [OF 1 2 3 this] built show False by auto
    qed
    have 5: "\<exists>m. concat_manifests (map priv_manifest arrays) axis = Inr m \<and>
           trace (concatenate arrays (Some axis)) =
             [Validated DtypeCheck, Validated ShapeCheck, Validated CodecCheck,
              BuiltManifest m, BuiltArray (ManifestArray_init None m)]"
      using cases built by (auto simp: raise_def)
    from 1 2 3 4 5 show ?thesis by blast
  qed
  from A B Cc G E F show ?thesis by blast
qed

text \<open>
  The dtype mismatch is reported although the two manifests could not be merged; a
  shape mismatch and a codec mismatch are reported with their values; a call on arrays
  that pass builds the result.
\<close>

theorem checks_precede_construction_witness:
  "concatenate
     [example_array [3, 4] ''float64'' ''zlib'' ''a.nc'',
      ManifestArray_init (Some (example_zarray [5, 4] ''int32'' ''zlib'')) (rank_one_manifest ''b.nc'')]
     (Some 0) =
     \<lparr>inputs_after =
        [example_array [3, 4] ''float64'' ''zlib'' ''a.nc'',
         ManifestArray_init (Some (example_zarray [5, 4] ''int32'' ''zlib'')) (rank_one_manifest ''b.nc'')],
      trace = [],
      returned = Inl (ValueError ''Cannot concatenate arrays with inconsistent dtypes: int32 vs float64'')\<rparr> \<and>
   concat_manifests [example_manifest ''a.nc'', rank_one_manifest ''b.nc''] 0 =
     Inl (ValueError ''manifests of different rank'') \<and>
   concatenate
     [example_array [3, 4] ''float64'' ''zlib'' ''a.nc'',
      example_array [5, 7] ''float64'' ''zlib'' ''b.nc''] (Some 0) =
     \<lparr>inputs_after =
        [example_array [3, 4] ''float64'' ''zlib'' ''a.nc'',
         example_array [5, 7] ''float64'' ''zlib'' ''b.nc''],
      trace = [Validated DtypeCheck],
      returned = Inl (ValueError ''Cannot concatenate arrays with shapes [(3, 4), (5, 7)]'')\<rparr> \<and>
   concatenate
     [example_array [3, 4] ''float64'' ''zlib'' ''a.nc'',
      example_array [5, 4] ''float64'' ''blosc'' ''b.nc''] (Some 0) =
     \<lparr>inputs_after =
        [example_array [3, 4] ''float64'' ''zlib'' ''a.nc'',
         example_array [5, 4] ''float64'' ''blosc'' ''b.nc''],
      trace = [Validated DtypeCheck, Validated ShapeCheck],
      returned = Inl (NotImplementedError
        ''The ManifestArray class cannot concatenate arrays which were stored using different codecs, But found codecs zlib vs blosc .See https://github.com/zarr-developers/zarr-specs/issues/288'')\<rparr> \<and>
   list_ex is_built
     (trace (concatenate
        [example_array [3, 4] ''float64'' ''zlib'' ''a.nc'',
         example_array [5, 4] ''float64'' ''zlib'' ''b.nc''] (Some 0))) \<and>
   agree_off_axis [3, 4] [5, 4] 0"
proof -
  let ?a = "example_array [3, 4] ''float64'' ''zlib'' ''a.nc''"
  let ?za = "example_zarray [3, 4] ''float64'' ''zlib''"
  let ?b1 = "ManifestArray_init (Some (example_zarray [5, 4] ''int32'' ''zlib'')) (rank_one_manifest ''b.nc'')"
  let ?z1 = "example_zarray [5, 4] ''int32'' ''zlib''"
  let ?b2 = "example_array [5, 7] ''float64'' ''zlib'' ''b.nc''"
  let ?z2 = "example_zarray [5, 7] ''float64'' ''zlib''"
  let ?b3 = "example_array [5, 4] ''float64'' ''blosc'' ''b.nc''"
  let ?z3 = "example_zarray [5, 4] ''float64'' ''blosc''"
  let ?b4 = "example_array [5, 4] ''float64'' ''zlib'' ''b.nc''"
  let ?z4 = "example_zarray [5, 4] ''float64'' ''zlib''"
  have h1: "map priv_zarray [?a, ?b1] = map Some [?za, ?z1]"
    and h2: "map priv_zarray [?a, ?b2] = map Some [?za, ?z2]"
    and h3: "map priv_zarray [?a, ?b3] = map Some [?za, ?z3]"
    and h4: "map priv_zarray [?a, ?b4] = map Some [?za, ?z4]"
    by (simp_all add: example_array_def ManifestArray_init_def)
  have 1: "concatenate [?a, ?b1] (Some 0) =
     \<lparr>inputs_after = [?a, ?b1], trace = [],
      returned = Inl (ValueError ''Cannot concatenate arrays with inconsistent dtypes: int32 vs float64'')\<rparr>"
    using checks_precede_construction [OF h1, of 0]
    by (simp add: example_zarray_def str_dtype_def)
  have 2: "concat_manifests [example_manifest ''a.nc'', rank_one_manifest ''b.nc''] 0 =
     Inl (ValueError ''manifests of different rank'')"
    by (simp add: concat_manifests_def example_manifest_def rank_one_manifest_def)
  have 3: "concatenate [?a, ?b2] (Some 0) =
     \<lparr>inputs_after = [?a, ?b2], trace = [Validated DtypeCheck],
      returned = Inl (ValueError ''Cannot concatenate arrays with shapes [(3, 4), (5, 7)]'')\<rparr>"
    using checks_precede_construction [OF h2, of 0] agree_ex1 valid_ex
    by (simp add: example_zarray_def repr_list_of_tuples_def repr_tuple_def str_int_def)
  have 4: "concatenate [?a, ?b3] (Some 0) =
     \<lparr>inputs_after = [?a, ?b3], trace = [Validated DtypeCheck, Validated ShapeCheck],
      returned = Inl (NotImplementedError
        ''The ManifestArray class cannot concatenate arrays which were stored using different codecs, But found codecs zlib vs blosc .See https://github.com/zarr-developers/zarr-specs/issues/288'')\<rparr>"
    using checks_precede_construction [OF h3, of 0] agree_ex2 valid_ex
    by (simp add: example_zarray_def str_codec_def)
  have 5: "list_ex is_built (trace (concatenate [?a, ?b4] (Some 0)))"
    by (simp add: concatenate_defs property_defs example_defs)
  have 6: "agree_off_axis [3, 4] [5, 4] 0"
    using checks_precede_construction [OF h4, of 0] 5
    by (simp add: example_zarray_def)
  from 1 2 3 4 5 6 show ?thesis by blast
qed

section \<open>Concatenation: different codecs\<close>

lemma codec_message_names_both:
  "sublist (str_codec c1)
     (''The ManifestArray class cannot concatenate arrays which were stored using different codecs, ''
      @ ''But found codecs '' @ str_codec c1 @ '' vs '' @ str_codec c2 @ '' .''
      @ ''See https://github.com/zarr-developers/zarr-specs/issues/288'') \<and>
   sublist (str_codec c2)
     (''The ManifestArray class cannot concatenate arrays which were stored using different codecs, ''
      @ ''But found codecs '' @ str_codec c1 @ '' vs '' @ str_codec c2 @ '' .''
      @ ''See https://github.com/zarr-developers/zarr-specs/issues/288'')"
proof
  let ?p = "''The ManifestArray class cannot concatenate arrays which were stored using different codecs, '' @ ''But found codecs ''"
  let ?q = "'' .'' @ ''See https://github.com/zarr-developers/zarr-specs/issues/288''"
  have "sublist (str_codec c1) (?p @ str_codec c1 @ ('' vs '' @ str_codec c2 @ ?q))"
    by (rule sublist_appendI)
  then show "sublist (str_codec c1)
     (''The ManifestArray class cannot concatenate arrays which were stored using different codecs, ''
      @ ''But found codecs '' @ str_codec c1 @ '' vs '' @ str_codec c2 @ '' .''
      @ ''See https://github.com/zarr-developers/zarr-specs/issues/288'')"
    by (simp only: append_assoc)
  have "sublist (str_codec c2) ((?p @ str_codec c1 @ '' vs '') @ str_codec c2 @ ?q)"
    by (rule sublist_appendI)
  then show "sublist (str_codec c2)
     (''The ManifestArray class cannot concatenate arrays which were stored using different codecs, ''
      @ ''But found codecs '' @ str_codec c1 @ '' vs '' @ str_codec c2 @ '' .''
      @ ''See https://github.com/zarr-developers/zarr-specs/issues/288'')"
    by (simp only: append_assoc)
qed

lemma check_same_dtypes_class:
  "check_same_dtypes ds = Inl e \<Longrightarrow> class_of e = ValueError_class"
  by (auto simp: check_same_dtypes_def unpack_error_def split: list.splits option.splits)

lemma comprehension_class:
  "comprehension f xs = Inl e \<Longrightarrow> \<exists>x \<in> set xs. f x = Inl e"
  by (induction xs) (auto split: sum.splits)

lemma check_same_shapes_class:
  "check_same_shapes_except_on_concat_axis ss ax = Inl e \<Longrightarrow>
     class_of e = ValueError_class \<or> class_of e = IndexError_class \<or>
     class_of e = OverflowError_class"
  by (auto simp: check_same_shapes_except_on_concat_axis_def unpack_error_def
        remove_element_at_position_def py_pop_def
      dest!: comprehension_class split: sum.splits list.splits option.splits if_splits)

text \<open>
  Claim C7, as the code has it. Two arrays with equal dtypes and equal shapes off an axis
  that is valid for both, but with different codecs, are refused with a
  NotImplementedError whose message names both codecs. That is the class raised by the
  unsupported operations (such as the conversion into a dense array), and it is not the
  class of any failure of the dtype validator or of the shape validator.
\<close>

theorem codec_mismatch_is_not_implemented:
  assumes "priv_zarray a = Some za" and "priv_zarray b = Some zb"
    and "zarray_dtype za = zarray_dtype zb"
    and "remove_element_at_position (zarray_shape za) axis = Inr rest"
    and "remove_element_at_position (zarray_shape zb) axis = Inr rest"
    and "zarray_codec za \<noteq> zarray_codec zb"
  shows "\<exists>m. returned (concatenate [a, b] (Some axis)) = Inl (NotImplementedError m) \<and>
           sublist (str_codec (zarray_codec za)) m \<and>
           sublist (str_codec (zarray_codec zb)) m \<and>
           (array_dunder a :: error + unit) =
             Inl (NotImplementedError
               ''ManifestArrays can't be converted into numpy arrays or pandas Index objects'') \<and>
           (\<forall>ds e. check_same_dtypes ds = Inl e \<longrightarrow>
              class_of e \<noteq> class_of (NotImplementedError m)) \<and>
           (\<forall>ss ax e. check_same_shapes_except_on_concat_axis ss ax = Inl e \<longrightarrow>
              class_of e \<noteq> class_of (NotImplementedError m))"
proof -
  let ?m = "''The ManifestArray class cannot concatenate arrays which were stored using different codecs, ''
      @ ''But found codecs '' @ str_codec (zarray_codec za) @ '' vs '' @ str_codec (zarray_codec zb) @ '' .''
      @ ''See https://github.com/zarr-developers/zarr-specs/issues/288''"
  have "returned (concatenate [a, b] (Some axis)) = Inl (NotImplementedError ?m)"
    using assms
    by (simp add: concatenate_def raise_def property_defs check_same_dtypes_def
          check_same_shapes_except_on_concat_axis_def check_same_codecs_def)
  moreover have "sublist (str_codec (zarray_codec za)) ?m \<and> sublist (str_codec (zarray_codec zb)) ?m"
    by (rule codec_message_names_both)
  moreover have "(array_dunder a :: error + unit) =
             Inl (NotImplementedError
               ''ManifestArrays can't be converted into numpy arrays or pandas Index objects'')"
    by (simp add: array_dunder_def)
  moreover have "\<forall>ds e. check_same_dtypes ds = Inl e \<longrightarrow>
              class_of e \<noteq> class_of (NotImplementedError ?m)"
    using check_same_dtypes_class by fastforce
  moreover have "\<forall>ss ax e. check_same_shapes_except_on_concat_axis ss ax = Inl e \<longrightarrow>
              class_of e \<noteq> class_of (NotImplementedError ?m)"
    using check_same_shapes_class by fastforce
  ultimately show ?thesis by blast
qed


theorem codec_mismatch_is_not_implemented_witness:
  "\<exists>m. returned (concatenate [example_array [3, 4] ''float64'' ''zlib'' ''a.nc'',
                               example_array [5, 4] ''float64'' ''blosc'' ''b.nc''] (Some 0))
          = Inl (NotImplementedError m) \<and>
       sublist ''zlib'' m \<and> sublist ''blosc'' m"
proof -
  let ?a = "example_array [3, 4] ''float64'' ''zlib'' ''a.nc''"
  let ?b = "example_array [5, 4] ''float64'' ''blosc'' ''b.nc''"
  let ?za = "example_zarray [3, 4] ''float64'' ''zlib''"
  let ?zb = "example_zarray [5, 4] ''float64'' ''blosc''"
  have 1: "priv_zarray ?a = Some ?za" and 2: "priv_zarray ?b = Some ?zb"
    by (simp_all add: example_array_def ManifestArray_init_def)
  have 3: "zarray_dtype ?za = zarray_dtype ?zb"
    by (simp add: example_zarray_def)
  have 4: "remove_element_at_position (zarray_shape ?za) 0 = Inr [4]"
    and 5: "remove_element_at_position (zarray_shape ?zb) 0 = Inr [4]"
    by (simp_all add: example_zarray_def remove_element_at_position_def py_pop_def py_index_def
          fits_ssize_t_def)
  have 6: "zarray_codec ?za \<noteq> zarray_codec ?zb"
    by (simp add: example_zarray_def)
  from codec_mismatch_is_not_implemented [OF 1 2 3 4 5 6] obtain m where
    "returned (concatenate [?a, ?b] (Some 0)) = Inl (NotImplementedError m)"
    "sublist (str_codec (zarray_codec ?za)) m" "sublist (str_codec (zarray_codec ?zb)) m"
    by blast
  then show ?thesis
    by (auto simp: str_codec_def example_zarray_def)
qed

text \<open>
  The claim as stated fails: a codec mismatch raises NotImplementedError, while a dtype
  mismatch and a shape mismatch raise ValueError.
\<close>

theorem codec_mismatch_not_incompatibility_kind:
  "returned (concatenate [example_array [3, 4] ''float64'' ''zlib'' ''a.nc'',
                          example_array [5, 4] ''float64'' ''blosc'' ''b.nc''] (Some 0)) =
     Inl (NotImplementedError
       ''The ManifestArray class cannot concatenate arrays which were stored using different codecs, But found codecs zlib vs blosc .See https://github.com/zarr-developers/zarr-specs/issues/288'') \<and>
   returned (concatenate [example_array [3, 4] ''float64'' ''zlib'' ''a.nc'',
                          example_array [5, 4] ''int32'' ''zlib'' ''b.nc''] (Some 0)) =
     Inl (ValueError ''Cannot concatenate arrays with inconsistent dtypes: int32 vs float64'') \<and>
   returned (concatenate [example_array [3, 4] ''float64'' ''zlib'' ''a.nc'',
                          example_array [5, 7] ''float64'' ''zlib'' ''b.nc''] (Some 0)) =
     Inl (ValueError ''Cannot concatenate arrays with shapes [(3, 4), (5, 7)]'') \<and>
   class_of (NotImplementedError
       ''The ManifestArray class cannot concatenate arrays which were stored using different codecs, But found codecs zlib vs blosc .See https://github.com/zarr-developers/zarr-specs/issues/288'')
     \<noteq> class_of (ValueError ''Cannot concatenate arrays with inconsistent dtypes: int32 vs float64'')"
  by (simp add: concatenate_defs property_defs example_defs)



end
